theory Spec2Isabelle
  imports Complex_Main "HOL-Library.Word" "HOL-Library.Sublist"
begin

section \<open>Strings of the runtime\<close>

text \<open>
  A JavaScript string is a sequence of UTF-16 code units. The functions below are the
  string built-ins that \<^verbatim>\<open>index.ts\<close> calls, written after their ECMAScript
  definitions: \<^verbatim>\<open>startsWith\<close>, \<^verbatim>\<open>trim\<close>, \<^verbatim>\<open>split(",")\<close>,
  \<^verbatim>\<open>replace(/[\s-]/g, "")\<close>, \<^verbatim>\<open>replace("v1,whsec_", "")\<close> and
  \<^verbatim>\<open>Array.prototype.some\<close>.
\<close>

type_synonym code_unit = "16 word"

type_synonym jsstring = "code_unit list"

text \<open>An ASCII literal of the source, as code units.\<close>

definition js :: "string \<Rightarrow> jsstring" where
  "js s = map (\<lambda>c. of_nat (of_char c)) s"

definition PLUS :: code_unit where
  "PLUS = 0x2B"

definition HYPHEN :: code_unit where
  "HYPHEN = 0x2D"

definition COMMA :: code_unit where
  "COMMA = 0x2C"

text \<open>
  The code units that \<^verbatim>\<open>\s\<close> matches and that \<^verbatim>\<open>trim\<close> strips: WhiteSpace
  (TAB, VT, FF, SP, NBSP, ZWNBSP and the space separators of Unicode) and LineTerminator
  (LF, CR, LS, PS).
\<close>

definition isWhiteSpace :: "code_unit \<Rightarrow> bool" where
  "isWhiteSpace c \<longleftrightarrow>
     c = 0x09 \<or> c = 0x0A \<or> c = 0x0B \<or> c = 0x0C \<or> c = 0x0D \<or> c = 0x20 \<or> c = 0xA0 \<or>
     c = 0x1680 \<or> (0x2000 \<le> c \<and> c \<le> 0x200A) \<or> c = 0x2028 \<or> c = 0x2029 \<or>
     c = 0x202F \<or> c = 0x205F \<or> c = 0x3000 \<or> c = 0xFEFF"

text \<open>\<^verbatim>\<open>s.startsWith(p)\<close>: the first \<open>length p\<close> code units of \<open>s\<close> are \<open>p\<close>.\<close>

definition startsWith :: "jsstring \<Rightarrow> jsstring \<Rightarrow> bool" where
  "startsWith s p \<longleftrightarrow> take (length p) s = p"

text \<open>\<^verbatim>\<open>s.trim()\<close>: white space is dropped at both ends.\<close>

definition trim :: "jsstring \<Rightarrow> jsstring" where
  "trim s = rev (dropWhile isWhiteSpace (rev (dropWhile isWhiteSpace s)))"

text \<open>
  \<^verbatim>\<open>s.split(",")\<close>: the pieces between the commas, in order. The empty string gives
  one empty piece, and \<open>n\<close> commas give \<open>n + 1\<close> pieces.
\<close>

fun split_comma :: "jsstring \<Rightarrow> jsstring list" where
  "split_comma [] = [[]]"
| "split_comma (c # cs) =
     (if c = COMMA then [] # split_comma cs
      else (case split_comma cs of
              [] \<Rightarrow> [[c]]
            | piece # pieces \<Rightarrow> (c # piece) # pieces))"

text \<open>\<^verbatim>\<open>xs.some(p)\<close>: the elements are tested in order until one satisfies \<open>p\<close>.\<close>

fun some :: "('a \<Rightarrow> bool) \<Rightarrow> 'a list \<Rightarrow> bool" where
  "some p [] = False"
| "some p (x # xs) = (if p x then True else some p xs)"

text \<open>
  \<^verbatim>\<open>s.replace(/[\s-]/g, "")\<close>: every code unit that is white space or a hyphen is
  removed, the others are kept in order.
\<close>

fun remove_space_hyphen :: "jsstring \<Rightarrow> jsstring" where
  "remove_space_hyphen [] = []"
| "remove_space_hyphen (c # cs) =
     (if isWhiteSpace c \<or> c = HYPHEN then remove_space_hyphen cs
      else c # remove_space_hyphen cs)"

text \<open>
  \<^verbatim>\<open>s.replace(pat, "")\<close> with a string pattern: the first occurrence of \<open>pat\<close> in
  \<open>s\<close>, searched from the left, is removed; a string without an occurrence is returned
  as it is.
\<close>

fun replace_first_empty :: "jsstring \<Rightarrow> jsstring \<Rightarrow> jsstring" where
  "replace_first_empty pat [] = []"
| "replace_first_empty pat (c # cs) =
     (if startsWith (c # cs) pat then drop (length pat) (c # cs)
      else c # replace_first_empty pat cs)"

section \<open>Configuration\<close>

text \<open>
  The module-level constants of \<^verbatim>\<open>index.ts\<close> (lines 26 to 38), read once from the
  environment. \<^verbatim>\<open>Deno.env.get\<close> returns a string or \<^verbatim>\<open>undefined\<close>; the API key
  and the hook secret keep that option, the other constants have a default.
\<close>

record config =
  AUTHENTICA_API_KEY :: "jsstring option"
  AUTHENTICA_SMS_TEMPLATE_ID :: jsstring
  AUTHENTICA_WHATSAPP_TEMPLATE_ID :: jsstring
  FALLBACK_EMAIL :: jsstring
  HOOK_SECRET :: "jsstring option"
  SMS_COUNTRY_CODES :: jsstring

text \<open>\<^verbatim>\<open>a || b\<close> on an optional string: \<^verbatim>\<open>undefined\<close> and \<^verbatim>\<open>""\<close> are falsy.\<close>

definition env_or :: "jsstring option \<Rightarrow> jsstring \<Rightarrow> jsstring" where
  "env_or a b = (case a of None \<Rightarrow> b | Some s \<Rightarrow> if s = [] then b else s)"

definition load_config :: "(jsstring \<Rightarrow> jsstring option) \<Rightarrow> config" where
  "load_config env =
     \<lparr> AUTHENTICA_API_KEY = env (js ''AUTHENTICA_API_KEY''),
       AUTHENTICA_SMS_TEMPLATE_ID =
         env_or (env (js ''AUTHENTICA_SMS_TEMPLATE_ID''))
           (env_or (env (js ''AUTHENTICA_TEMPLATE_ID'')) (js ''31'')),
       AUTHENTICA_WHATSAPP_TEMPLATE_ID =
         env_or (env (js ''AUTHENTICA_WHATSAPP_TEMPLATE_ID'')) [],
       FALLBACK_EMAIL = env_or (env (js ''FALLBACK_EMAIL'')) (js ''noreply@yourdomain.com''),
       HOOK_SECRET = env (js ''SEND_SMS_HOOK_SECRET''),
       SMS_COUNTRY_CODES = env_or (env (js ''SMS_COUNTRY_CODES'')) [] \<rparr>"

section \<open>Channel routing\<close>

text \<open>\<^verbatim>\<open>getSmsCountryCodes\<close> (lines 46 to 52).\<close>

definition getSmsCountryCodes :: "config \<Rightarrow> jsstring list" where
  "getSmsCountryCodes cfg =
     filter (\<lambda>code. length code > 1)
       (map (\<lambda>code. if startsWith code [PLUS] then code else PLUS # code)
         (map (\<lambda>code. trim code)
           (split_comma (SMS_COUNTRY_CODES cfg))))"

text \<open>
  The normalisation inside \<^verbatim>\<open>shouldUseSMS\<close> (lines 77 to 80): white space and
  hyphens are removed, then a \<open>+\<close> is put in front unless there is one.
\<close>

definition normalizePhone :: "jsstring \<Rightarrow> jsstring" where
  "normalizePhone phone =
     (let normalized = remove_space_hyphen phone
      in if \<not> startsWith normalized [PLUS] then PLUS # normalized else normalized)"

text \<open>\<^verbatim>\<open>shouldUseSMS\<close> (lines 63 to 84).\<close>

definition shouldUseSMS :: "config \<Rightarrow> jsstring \<Rightarrow> bool" where
  "shouldUseSMS cfg phone =
     (if AUTHENTICA_WHATSAPP_TEMPLATE_ID cfg = [] then True
      else
        let smsCountryCodes = getSmsCountryCodes cfg
        in if length smsCountryCodes = 0 then True
           else
             let normalized = normalizePhone phone
             in some (\<lambda>code. startsWith normalized code) smsCountryCodes)"

section \<open>Values, errors and the runtime\<close>

text \<open>
  A number of the runtime is a double: a finite value, an infinity (\<open>Infinity True\<close> is
  the positive one) or \<^verbatim>\<open>NaN\<close>. The handler only tests numbers for truthiness.
\<close>

datatype jsnum = Finite real | Infinity bool | NaN

text \<open>
  A value as \<^verbatim>\<open>JSON.parse\<close> returns it, and \<^verbatim>\<open>undefined\<close>. An object is the list
  of its own properties.
\<close>

datatype jsval =
    JUndefined
  | JNull
  | JBool bool
  | JNumber jsnum
  | JString jsstring
  | JArray "jsval list"
  | JObject "(jsstring \<times> jsval) list"

text \<open>What \<^verbatim>\<open>!v\<close>, \<^verbatim>\<open>if (v)\<close> and \<^verbatim>\<open>v || w\<close> test.\<close>

fun truthy :: "jsval \<Rightarrow> bool" where
  "truthy JUndefined = False"
| "truthy JNull = False"
| "truthy (JBool b) = b"
| "truthy (JNumber n) = (n \<noteq> Finite 0 \<and> n \<noteq> NaN)"
| "truthy (JString s) = (s \<noteq> [])"
| "truthy (JArray vs) = True"
| "truthy (JObject props) = True"

definition js_or :: "jsval \<Rightarrow> jsval \<Rightarrow> jsval" where
  "js_or a b = (if truthy a then a else b)"

text \<open>
  \<^verbatim>\<open>base?.key\<close>: \<^verbatim>\<open>undefined\<close> when the base is \<^verbatim>\<open>null\<close> or \<^verbatim>\<open>undefined\<close>,
  the property otherwise. The handler reads the keys \<^verbatim>\<open>user\<close>, \<^verbatim>\<open>phone\<close>,
  \<^verbatim>\<open>new_phone\<close>, \<^verbatim>\<open>sms\<close> and \<^verbatim>\<open>otp\<close>, which no prototype defines, so a
  primitive or an array has none of them.
\<close>

fun optional_get :: "jsval \<Rightarrow> jsstring \<Rightarrow> jsval" where
  "optional_get JUndefined k = JUndefined"
| "optional_get JNull k = JUndefined"
| "optional_get (JObject props) k = (case map_of props k of None \<Rightarrow> JUndefined | Some v \<Rightarrow> v)"
| "optional_get (JBool b) k = JUndefined"
| "optional_get (JNumber n) k = JUndefined"
| "optional_get (JString s) k = JUndefined"
| "optional_get (JArray vs) k = JUndefined"

text \<open>A thrown error, with its \<^verbatim>\<open>message\<close>.\<close>

datatype js_error = SyntaxError jsstring | TypeError jsstring | OtherError jsstring

fun error_message :: "js_error \<Rightarrow> jsstring" where
  "error_message (SyntaxError m) = m"
| "error_message (TypeError m) = m"
| "error_message (OtherError m) = m"

text \<open>The outbound request that \<^verbatim>\<open>fetch\<close> receives; the body is the object given to
  \<^verbatim>\<open>JSON.stringify\<close>.\<close>

record provider_request =
  url :: jsstring
  http_method :: jsstring
  request_headers :: "(jsstring \<times> jsstring) list"
  request_body :: jsval

text \<open>
  What \<^verbatim>\<open>fetch\<close> does: the promise rejects, or a response arrives with a status and
  \<^verbatim>\<open>response.text()\<close> then gives the body or rejects.
\<close>

datatype fetch_result = Rejected js_error | Responded nat "js_error + jsstring"

text \<open>
  The parts of the platform that \<^verbatim>\<open>index.ts\<close> calls and that lie outside the
  repository are parameters: \<^verbatim>\<open>JSON.parse\<close> (\<open>Inl\<close> is the error it throws),
  \<^verbatim>\<open>parseInt\<close>, \<^verbatim>\<open>fetch\<close>, and \<^verbatim>\<open>new Webhook(secret).verify(payload, headers)\<close>
  of the Standard Webhooks library, which returns the event or throws.
\<close>

record runtime =
  JSON_parse :: "jsstring \<Rightarrow> js_error + jsval"
  parseInt :: "jsstring \<Rightarrow> jsnum"
  fetch :: "provider_request \<Rightarrow> fetch_result"
  Webhook_verify :: "jsstring \<Rightarrow> jsstring \<Rightarrow> (jsstring \<times> jsstring) list \<Rightarrow> js_error + jsval"

text \<open>\<^verbatim>\<open>response.ok\<close>: the status is in the range 200 to 299.\<close>

definition response_ok :: "nat \<Rightarrow> bool" where
  "response_ok st \<longleftrightarrow> 200 \<le> st \<and> st \<le> 299"

text \<open>A status in a template literal: its decimal digits.\<close>

fun number_to_string :: "nat \<Rightarrow> jsstring" where
  "number_to_string n =
     (if n < 10 then [of_nat (48 + n)]
      else number_to_string (n div 10) @ [of_nat (48 + n mod 10)])"

declare number_to_string.simps [simp del]

section \<open>Delivery\<close>

record send_result =
  success :: bool
  error :: "jsstring option"
  data :: "jsval option"

text \<open>The request of lines 114 to 128.\<close>

definition send_otp_request :: "config \<Rightarrow> runtime \<Rightarrow> jsstring \<Rightarrow> jsstring \<Rightarrow> jsval \<Rightarrow> provider_request" where
  "send_otp_request cfg rt key phone otp =
     (let useSMS = shouldUseSMS cfg phone;
          deliveryMethod = (if useSMS then js ''sms'' else js ''whatsapp'');
          templateId = (if useSMS then AUTHENTICA_SMS_TEMPLATE_ID cfg
                        else AUTHENTICA_WHATSAPP_TEMPLATE_ID cfg)
      in \<lparr> url = js ''https://api.authentica.sa/api/v2/send-otp'',
           http_method = js ''POST'',
           request_headers =
             [(js ''Accept'', js ''application/json''),
              (js ''X-Authorization'', key),
              (js ''Content-Type'', js ''application/json'')],
           request_body =
             JObject
               [(js ''method'', JString deliveryMethod),
                (js ''phone'', JString phone),
                (js ''template_id'', JNumber (parseInt rt templateId)),
                (js ''fallback_email'', JString (FALLBACK_EMAIL cfg)),
                (js ''otp'', otp)] \<rparr>)"

text \<open>Lines 136 to 141: the parsed body, or the raw text when it does not parse.\<close>

definition parsed_or_raw :: "runtime \<Rightarrow> jsstring \<Rightarrow> jsval" where
  "parsed_or_raw rt responseText =
     (case JSON_parse rt responseText of Inr v \<Rightarrow> v | Inl e \<Rightarrow> JString responseText)"

text \<open>
  The \<^verbatim>\<open>try\<close> block of \<^verbatim>\<open>sendSMS\<close> (lines 104 to 157): its result or the error it
  throws, and the requests made.
\<close>

definition sendSMS_try ::
  "config \<Rightarrow> runtime \<Rightarrow> jsstring \<Rightarrow> jsstring \<Rightarrow> jsval \<Rightarrow> (js_error + send_result) \<times> provider_request list" where
  "sendSMS_try cfg rt key phone otp =
     (let request = send_otp_request cfg rt key phone otp
      in case fetch rt request of
           Rejected e \<Rightarrow> (Inl e, [request])
         | Responded st body_text \<Rightarrow>
             (case body_text of
                Inl e \<Rightarrow> (Inl e, [request])
              | Inr responseText \<Rightarrow>
                  let d = parsed_or_raw rt responseText
                  in if \<not> response_ok st
                     then (Inr \<lparr> success = False,
                                 error = Some (js ''Authentica API error: '' @ number_to_string st),
                                 data = Some d \<rparr>, [request])
                     else (Inr \<lparr> success = True, error = None, data = Some d \<rparr>, [request])))"

text \<open>\<^verbatim>\<open>sendSMS\<close> (lines 93 to 168).\<close>

definition sendSMS ::
  "config \<Rightarrow> runtime \<Rightarrow> jsstring \<Rightarrow> jsval \<Rightarrow> (js_error + send_result) \<times> provider_request list" where
  "sendSMS cfg rt phone otp =
     (case AUTHENTICA_API_KEY cfg of
        None \<Rightarrow>
          (Inr \<lparr> success = False, error = Some (js ''SMS service not configured''), data = None \<rparr>, [])
      | Some key \<Rightarrow>
          if key = [] then
            (Inr \<lparr> success = False, error = Some (js ''SMS service not configured''), data = None \<rparr>, [])
          else
            (case sendSMS_try cfg rt key phone otp of
               (Inr result, calls) \<Rightarrow> (Inr result, calls)
             | (Inl e, calls) \<Rightarrow>
                 (Inr \<lparr> success = False, error = Some (js ''Failed to send SMS''), data = None \<rparr>, calls)))"

section \<open>The request handler\<close>

record request =
  req_method :: jsstring
  req_headers :: "(jsstring \<times> jsstring) list"
  req_text :: "js_error + jsstring"

text \<open>A \<^verbatim>\<open>Response\<close>: the status, the headers and the object given to
  \<^verbatim>\<open>JSON.stringify\<close> for the body.\<close>

record response =
  status :: nat
  resp_headers :: "(jsstring \<times> jsstring) list"
  json_body :: jsval

definition json_response :: "nat \<Rightarrow> jsval \<Rightarrow> response" where
  "json_response st obj =
     \<lparr> status = st,
       resp_headers = [(js ''Content-Type'', js ''application/json'')],
       json_body = obj \<rparr>"

definition error_response :: "nat \<Rightarrow> jsstring \<Rightarrow> jsstring \<Rightarrow> response" where
  "error_response st code message =
     json_response st (JObject [(js ''code'', JString code), (js ''message'', JString message)])"

text \<open>Line 216: the secret given to the verifier.\<close>

definition verifier_secret :: "jsstring \<Rightarrow> jsstring" where
  "verifier_secret hook_secret = replace_first_empty (js ''v1,whsec_'') hook_secret"

text \<open>Lines 209 to 233: the event, verified or not, or the error thrown.\<close>

definition read_event :: "config \<Rightarrow> runtime \<Rightarrow> request \<Rightarrow> jsstring \<Rightarrow> js_error + jsval" where
  "read_event cfg rt req payload =
     (case HOOK_SECRET cfg of
        None \<Rightarrow> JSON_parse rt payload
      | Some hook_secret \<Rightarrow>
          if hook_secret = [] then JSON_parse rt payload
          else
            (case Webhook_verify rt (verifier_secret hook_secret) payload (req_headers req) of
               Inr event \<Rightarrow> Inr event
             | Inl verifyError \<Rightarrow> JSON_parse rt payload))"

text \<open>Lines 239 and 240.\<close>

definition extract_phone :: "jsval \<Rightarrow> jsval" where
  "extract_phone event =
     js_or (optional_get (optional_get event (js ''user'')) (js ''phone''))
           (optional_get (optional_get event (js ''user'')) (js ''new_phone''))"

definition extract_otp :: "jsval \<Rightarrow> jsval" where
  "extract_otp event = optional_get (optional_get event (js ''sms'')) (js ''otp'')"

text \<open>
  Lines 239 to 312: validation, formatting, delivery and the response. A phone that is
  truthy but not a string has no \<^verbatim>\<open>startsWith\<close>, and the call at line 278 throws a
  TypeError (the message is the one of V8).
\<close>

definition process_event ::
  "config \<Rightarrow> runtime \<Rightarrow> jsval \<Rightarrow> (js_error + response) \<times> provider_request list" where
  "process_event cfg rt event =
     (let phone = extract_phone event;
          otp = extract_otp event
      in if \<not> truthy phone then
           (Inr (error_response 400 (js ''invalid_payload'') (js ''Missing phone number'')), [])
         else if \<not> truthy otp then
           (Inr (error_response 400 (js ''invalid_payload'') (js ''Missing OTP'')), [])
         else
           (case phone of
              JString s \<Rightarrow>
                (let formattedPhone = (if \<not> startsWith s [PLUS] then PLUS # s else s)
                 in case sendSMS cfg rt formattedPhone otp of
                      (Inl e, calls) \<Rightarrow> (Inl e, calls)
                    | (Inr result, calls) \<Rightarrow>
                        if \<not> success result then
                          (Inr (error_response 500 (js ''sms_send_failure'')
                                 (env_or (error result) (js ''Failed to send SMS''))), calls)
                        else
                          (Inr (json_response 200 (JObject [(js ''success'', JBool True)])), calls))
            | _ \<Rightarrow>
                (Inl (TypeError (js ''formattedPhone.startsWith is not a function'')), [])))"

text \<open>The \<^verbatim>\<open>try\<close> block of the handler (lines 200 to 312).\<close>

definition handler_try ::
  "config \<Rightarrow> runtime \<Rightarrow> request \<Rightarrow> (js_error + response) \<times> provider_request list" where
  "handler_try cfg rt req =
     (case req_text req of
        Inl e \<Rightarrow> (Inl e, [])
      | Inr payload \<Rightarrow>
          (case read_event cfg rt req payload of
             Inl e \<Rightarrow> (Inl e, [])
           | Inr event \<Rightarrow> process_event cfg rt event))"

text \<open>The handler given to \<^verbatim>\<open>Deno.serve\<close> (lines 181 to 330): the response and the
  requests made to the provider.\<close>

definition handler :: "config \<Rightarrow> runtime \<Rightarrow> request \<Rightarrow> response \<times> provider_request list" where
  "handler cfg rt req =
     (if req_method req \<noteq> js ''POST'' then
        (error_response 405 (js ''method_not_allowed'') (js ''Only POST method is allowed''), [])
      else
        (case handler_try cfg rt req of
           (Inr resp, calls) \<Rightarrow> (resp, calls)
         | (Inl e, calls) \<Rightarrow>
             (error_response 500 (js ''unexpected_failure'')
                (if error_message e = [] then js ''Internal server error'' else error_message e),
              calls)))"

section \<open>The router on the state of the module\<close>

text \<open>
  What outlives an invocation of a function of \<^verbatim>\<open>index.ts\<close> and can be read or
  changed by it: the module-level bindings of lines 26 to 38, the console, and the
  requests sent with \<^verbatim>\<open>fetch\<close>. A function of the module is a function from this state
  to its result and the state it leaves.
\<close>

record module_state =
  bindings :: config
  console :: "jsstring list"
  requests :: "provider_request list"

text \<open>Reading a module-level binding, and \<^verbatim>\<open>console.log\<close>.\<close>

definition read_binding :: "(config \<Rightarrow> 'a) \<Rightarrow> module_state \<Rightarrow> 'a \<times> module_state" where
  "read_binding name s = (name (bindings s), s)"

definition console_log :: "jsstring \<Rightarrow> module_state \<Rightarrow> unit \<times> module_state" where
  "console_log line s = ((), s\<lparr>console := console s @ [line]\<rparr>)"

text \<open>
  \<^verbatim>\<open>getSmsCountryCodes\<close> (lines 46 to 52), statement by statement: the binding is read,
  and \<^verbatim>\<open>split\<close>, \<^verbatim>\<open>map\<close> and \<^verbatim>\<open>filter\<close> each build a new array.
\<close>

definition getSmsCountryCodes_call :: "module_state \<Rightarrow> jsstring list \<times> module_state" where
  "getSmsCountryCodes_call s0 =
     (let (codes, s1) = read_binding SMS_COUNTRY_CODES s0;
          pieces = split_comma codes;
          trimmed = map (\<lambda>code. trim code) pieces;
          prefixed = map (\<lambda>code. if startsWith code [PLUS] then code else PLUS # code) trimmed;
          kept = filter (\<lambda>code. length code > 1) prefixed
      in (kept, s1))"

text \<open>
  \<^verbatim>\<open>shouldUseSMS\<close> (lines 63 to 84), statement by statement. The variable
  \<^verbatim>\<open>normalized\<close> is local to the invocation; line 79 assigns it again.
\<close>

definition shouldUseSMS_call :: "jsstring \<Rightarrow> module_state \<Rightarrow> bool \<times> module_state" where
  "shouldUseSMS_call phone s0 =
     (let (whatsapp, s1) = read_binding AUTHENTICA_WHATSAPP_TEMPLATE_ID s0
      in if whatsapp = [] then (True, s1)
         else
           let (smsCountryCodes, s2) = getSmsCountryCodes_call s1
           in if length smsCountryCodes = 0 then (True, s2)
              else
                let normalized = remove_space_hyphen phone;
                    normalized = (if \<not> startsWith normalized [PLUS] then PLUS # normalized
                                  else normalized)
                in (some (\<lambda>code. startsWith normalized code) smsCountryCodes, s2))"

text \<open>Invocations one after the other, each on the state the one before left.\<close>

fun invocations :: "jsstring list \<Rightarrow> module_state \<Rightarrow> bool list \<times> module_state" where
  "invocations [] s = ([], s)"
| "invocations (phone # phones) s =
     (let (r, s1) = shouldUseSMS_call phone s;
          (rs, s2) = invocations phones s1
      in (r # rs, s2))"

text \<open>
  Two functions that only state properties of the built-ins above: the number that a
  string of decimal digits denotes, and \<^verbatim>\<open>pieces.join(",")\<close>.
\<close>

definition decimal_value :: "jsstring \<Rightarrow> nat" where
  "decimal_value s = foldl (\<lambda>a d. 10 * a + (unat d - 48)) 0 s"

fun join_comma :: "jsstring list \<Rightarrow> jsstring" where
  "join_comma [] = []"
| "join_comma [p] = p"
| "join_comma (p # q # ps) = p @ COMMA # join_comma (q # ps)"

section \<open>The routing algorithm as the specification words it\<close>

text \<open>
  The specification describes the router as a function \<open>chooseChannel\<close> into a channel:
  SMS when the alternate template id is empty; otherwise the allow-list is made from the
  comma-separated entries, each trimmed and given a leading \<open>+\<close>, without the entries of
  length at most one; SMS when that list is empty; otherwise SMS exactly when the phone,
  without white space and hyphens and with a leading \<open>+\<close>, starts with an entry of the
  list. These definitions follow that wording, not the code.
\<close>

datatype DeliveryChannel = SMS | AlternateChannel

definition ensure_plus :: "jsstring \<Rightarrow> jsstring" where
  "ensure_plus s = (if prefix [PLUS] s then s else PLUS # s)"

definition spec_allow_list :: "jsstring \<Rightarrow> jsstring list" where
  "spec_allow_list entries =
     filter (\<lambda>entry. \<not> length entry \<le> 1)
       (map (\<lambda>entry. ensure_plus (trim entry)) (split_comma entries))"

definition spec_normalize :: "jsstring \<Rightarrow> jsstring" where
  "spec_normalize phone = ensure_plus (filter (\<lambda>c. \<not> isWhiteSpace c \<and> c \<noteq> HYPHEN) phone)"

definition spec_chooseChannel :: "config \<Rightarrow> jsstring \<Rightarrow> DeliveryChannel" where
  "spec_chooseChannel cfg phone =
     (if AUTHENTICA_WHATSAPP_TEMPLATE_ID cfg = [] then SMS
      else if spec_allow_list (SMS_COUNTRY_CODES cfg) = [] then SMS
      else if (\<exists>p \<in> set (spec_allow_list (SMS_COUNTRY_CODES cfg)). prefix p (spec_normalize phone))
           then SMS else AlternateChannel)"

section \<open>Example inputs\<close>

text \<open>
  A configuration with both templates, a hook secret and the allow-list \<open>+966, 971\<close>;
  payloads with the events they parse to; a runtime whose verifier and provider answer
  as given.
\<close>

definition example_config :: config where
  "example_config =
     \<lparr> AUTHENTICA_API_KEY = Some (js ''secret-api-key''),
       AUTHENTICA_SMS_TEMPLATE_ID = js ''31'',
       AUTHENTICA_WHATSAPP_TEMPLATE_ID = js ''32'',
       FALLBACK_EMAIL = js ''noreply@yourdomain.com'',
       HOOK_SECRET = Some (js ''v1,whsec_c2VjcmV0''),
       SMS_COUNTRY_CODES = js ''+966, 971'' \<rparr>"

definition example_payload :: jsstring where
  \<open>example_payload = js ''{"user":{"phone":"966512345678"},"sms":{"otp":"123456"}}''\<close>

definition example_event :: jsval where
  "example_event =
     JObject
       [(js ''user'', JObject [(js ''phone'', JString (js ''966512345678''))]),
        (js ''sms'', JObject [(js ''otp'', JString (js ''123456''))])]"

definition payload_without_phone :: jsstring where
  \<open>payload_without_phone = js ''{"user":{},"sms":{"otp":"123456"}}''\<close>

definition event_without_phone :: jsval where
  "event_without_phone =
     JObject
       [(js ''user'', JObject []),
        (js ''sms'', JObject [(js ''otp'', JString (js ''123456''))])]"

definition payload_without_otp :: jsstring where
  \<open>payload_without_otp = js ''{"user":{"new_phone":"+14155550123"},"sms":{"otp":""}}''\<close>

definition event_without_otp :: jsval where
  "event_without_otp =
     JObject
       [(js ''user'', JObject [(js ''new_phone'', JString (js ''+14155550123''))]),
        (js ''sms'', JObject [(js ''otp'', JString [])])]"

definition payload_empty_object :: jsstring where
  "payload_empty_object = js ''{}''"

definition provider_error_body :: jsstring where
  \<open>provider_error_body = js ''{"message":"invalid template"}''\<close>

definition example_JSON_parse :: "jsstring \<Rightarrow> js_error + jsval" where
  "example_JSON_parse s =
     (case map_of
             [(example_payload, example_event),
              (payload_without_phone, event_without_phone),
              (payload_without_otp, event_without_otp),
              (payload_empty_object, JObject []),
              (provider_error_body, JObject [(js ''message'', JString (js ''invalid template''))])] s of
        Some v \<Rightarrow> Inr v
      | None \<Rightarrow> Inl (SyntaxError (js ''Unexpected token in JSON'')))"

definition example_runtime :: "(js_error + jsval) \<Rightarrow> fetch_result \<Rightarrow> runtime" where
  "example_runtime verification provider =
     \<lparr> JSON_parse = example_JSON_parse,
       parseInt = (\<lambda>s. if s = js ''31'' then Finite 31 else if s = js ''32'' then Finite 32 else NaN),
       fetch = (\<lambda>request. provider),
       Webhook_verify = (\<lambda>secret payload headers. verification) \<rparr>"

definition verification_failed :: "js_error + jsval" where
  "verification_failed = Inl (OtherError (js ''No matching signature found''))"

definition example_request :: "jsstring \<Rightarrow> request" where
  "example_request payload =
     \<lparr> req_method = js ''POST'',
       req_headers = [(js ''content-type'', js ''application/json'')],
       req_text = Inr payload \<rparr>"

definition example_state :: module_state where
  "example_state = \<lparr> bindings = example_config, console = [js ''Webhook received: POST''], requests = [] \<rparr>"

section \<open>String built-ins\<close>

lemma some_iff_Bex: "some p xs \<longleftrightarrow> (\<exists>x \<in> set xs. p x)"
  by (induction xs) auto

lemma startsWith_iff_prefix: "startsWith s p \<longleftrightarrow> prefix p s"
proof
  assume "startsWith s p"
  then have "take (length p) s = p" by (simp add: startsWith_def)
  then have "s = p @ drop (length p) s" by (metis append_take_drop_id)
  then show "prefix p s" by (metis prefixI)
next
  assume "prefix p s"
  then obtain r where "s = p @ r" by (auto simp: prefix_def)
  then show "startsWith s p" by (simp add: startsWith_def)
qed

lemma remove_space_hyphen_filter:
  "remove_space_hyphen s = filter (\<lambda>c. \<not> isWhiteSpace c \<and> c \<noteq> HYPHEN) s"
  by (induction s) auto

lemmas string_evals = js_def PLUS_def HYPHEN_def COMMA_def isWhiteSpace_def startsWith_def trim_def


text \<open>\<^verbatim>\<open>trim\<close> returns the part of the string between its leading and its trailing white
  space, and that part neither starts nor ends with white space.\<close>

lemma trim_decomposition:
  "s = takeWhile isWhiteSpace s @ trim s @ rev (takeWhile isWhiteSpace (rev (dropWhile isWhiteSpace s)))"
proof -
  let ?t = "dropWhile isWhiteSpace s"
  have "trim s @ rev (takeWhile isWhiteSpace (rev ?t)) =
        rev (takeWhile isWhiteSpace (rev ?t) @ dropWhile isWhiteSpace (rev ?t))"
    by (simp only: trim_def rev_append)
  also have "\<dots> = ?t"
    by (simp only: takeWhile_dropWhile_id rev_rev_ident)
  finally have "trim s @ rev (takeWhile isWhiteSpace (rev ?t)) = ?t" .
  then have "takeWhile isWhiteSpace s @ trim s @ rev (takeWhile isWhiteSpace (rev ?t)) =
             takeWhile isWhiteSpace s @ ?t"
    by (simp only:)
  then show ?thesis by (simp only: takeWhile_dropWhile_id)
qed

lemma trim_ends:
  assumes "trim s \<noteq> []"
  shows "\<not> isWhiteSpace (hd (trim s))" and "\<not> isWhiteSpace (last (trim s))"
proof -
  let ?t = "dropWhile isWhiteSpace s"
  let ?r = "dropWhile isWhiteSpace (rev ?t)"
  have r: "?r \<noteq> []" using assms by (simp add: trim_def)
  have "last (trim s) = hd ?r" using r by (simp add: trim_def last_rev)
  then show "\<not> isWhiteSpace (last (trim s))" using r hd_dropWhile by metis
  have t: "?t = trim s @ rev (takeWhile isWhiteSpace (rev ?t))"
    using trim_decomposition [of s] by (metis same_append_eq takeWhile_dropWhile_id)
  then have "?t \<noteq> []" using assms by (metis append_is_Nil_conv)
  moreover have "hd ?t = hd (trim s)" using t assms by (metis hd_append2)
  ultimately show "\<not> isWhiteSpace (hd (trim s))" using hd_dropWhile by metis
qed


text \<open>\<^verbatim>\<open>split(",")\<close> is inverted by \<^verbatim>\<open>join(",")\<close>, and no piece has a comma.\<close>

lemma split_comma_nonempty: "split_comma s \<noteq> []"
  by (induction s) (auto split: list.splits)

lemma join_split_comma: "join_comma (split_comma s) = s"
proof (induction s)
  case Nil
  show ?case by simp
next
  case (Cons c cs)
  obtain p ps where e: "split_comma cs = p # ps"
    using split_comma_nonempty [of cs] by (cases "split_comma cs") auto
  show ?case using Cons e by (cases ps) auto
qed

lemma split_comma_pieces: "p \<in> set (split_comma s) \<Longrightarrow> COMMA \<notin> set p"
  by (induction s arbitrary: p) (auto split: if_splits list.splits)

text \<open>
  \<^verbatim>\<open>replace(pat, "")\<close> removes the leftmost occurrence of the pattern, at the start
  of the string or further in, and changes nothing when there is no occurrence.
\<close>

lemma replace_first_empty_prefix: "replace_first_empty pat (pat @ rest) = rest"
proof (cases pat)
  case Nil
  then show ?thesis by (cases rest) (simp_all add: startsWith_def)
next
  case (Cons x xs)
  then show ?thesis by (simp add: startsWith_def)
qed

lemma replace_first_empty_absent:
  "\<forall>a b. s \<noteq> a @ pat @ b \<Longrightarrow> replace_first_empty pat s = s"
proof (induction s)
  case Nil
  show ?case by simp
next
  case (Cons c cs)
  have "\<not> startsWith (c # cs) pat"
  proof
    assume "startsWith (c # cs) pat"
    then have "c # cs = [] @ pat @ drop (length pat) (c # cs)"
      by (metis append_Nil append_take_drop_id startsWith_def)
    with Cons.prems show False by blast
  qed
  moreover have "\<forall>a b. cs \<noteq> a @ pat @ b"
  proof (intro allI notI)
    fix a b assume "cs = a @ pat @ b"
    then have "c # cs = (c # a) @ pat @ b" by simp
    with Cons.prems show False by blast
  qed
  ultimately show ?case using Cons.IH by simp
qed

lemma replace_first_empty_leftmost:
  assumes "pat \<noteq> []" and "\<forall>a' b'. a @ butlast pat \<noteq> a' @ pat @ b'"
  shows "replace_first_empty pat (a @ pat @ b) = a @ b"
  using assms(2)
proof (induction a)
  case Nil
  show ?case by (simp add: replace_first_empty_prefix)
next
  case (Cons c a)
  have "\<not> startsWith ((c # a) @ pat @ b) pat"
  proof
    assume "startsWith ((c # a) @ pat @ b) pat"
    then have t: "take (length pat) ((c # a) @ pat @ b) = pat"
      by (simp add: startsWith_def)
    have "butlast pat @ [last pat] = pat"
      using assms(1) by (rule append_butlast_last_id)
    then have "(c # a) @ (butlast pat @ [last pat]) @ b = (c # a) @ pat @ b"
      by (simp only:)
    then have e: "((c # a) @ butlast pat) @ (last pat # b) = (c # a) @ pat @ b"
      by simp
    have l: "length pat \<le> length ((c # a) @ butlast pat)"
      using assms(1) by simp
    have "take (length pat) ((c # a) @ butlast pat) =
          take (length pat) (((c # a) @ butlast pat) @ (last pat # b))"
      using l by (simp only: take_append) simp
    also have "\<dots> = take (length pat) ((c # a) @ pat @ b)"
      by (simp only: e)
    also have "\<dots> = pat"
      by (rule t)
    finally have "take (length pat) ((c # a) @ butlast pat) = pat" .
    then have "(c # a) @ butlast pat = [] @ pat @ drop (length pat) ((c # a) @ butlast pat)"
      by (metis append_Nil append_take_drop_id)
    with Cons.prems show False by blast
  qed
  moreover have "\<forall>a' b'. a @ butlast pat \<noteq> a' @ pat @ b'"
  proof (intro allI notI)
    fix a' b' assume "a @ butlast pat = a' @ pat @ b'"
    then have "(c # a) @ butlast pat = (c # a') @ pat @ b'" by simp
    with Cons.prems show False by blast
  qed
  ultimately show ?case using Cons.IH by simp
qed

text \<open>The digits of \<open>number_to_string n\<close> denote \<open>n\<close>.\<close>

lemma digit_unat: "k < 10 \<Longrightarrow> unat (of_nat (48 + k) :: code_unit) = 48 + k"
  unfolding unat_of_nat by simp

lemma decimal_value_number_to_string: "decimal_value (number_to_string n) = n"
proof (induction n rule: number_to_string.induct)
  case (1 n)
  show ?case
  proof (cases "n < 10")
    case True
    then show ?thesis
      by (subst number_to_string.simps) (simp add: decimal_value_def digit_unat del: of_nat_add)
  next
    case False
    then have "decimal_value (number_to_string (n div 10)) = n div 10"
      using 1 by simp
    moreover have "unat (of_nat (48 + n mod 10) :: code_unit) = 48 + n mod 10"
      by (rule digit_unat) simp
    ultimately show ?thesis
      using False by (subst number_to_string.simps) (simp add: decimal_value_def del: of_nat_add)
  qed
qed

section \<open>Channel routing\<close>

lemma normalizePhone_spec: "normalizePhone phone = spec_normalize phone"
  by (simp add: normalizePhone_def spec_normalize_def ensure_plus_def Let_def
      startsWith_iff_prefix remove_space_hyphen_filter)

lemma getSmsCountryCodes_spec: "getSmsCountryCodes cfg = spec_allow_list (SMS_COUNTRY_CODES cfg)"
  by (simp add: getSmsCountryCodes_def spec_allow_list_def ensure_plus_def
      startsWith_iff_prefix not_le o_def)

text \<open>
  Claim C1. For every configuration and phone number the channel that \<^verbatim>\<open>shouldUseSMS\<close>
  chooses is the one of the routing algorithm of the specification: SMS when the WhatsApp
  template id is empty or the derived allow-list is empty, and otherwise SMS exactly when
  the normalised phone starts with an entry of the allow-list, WhatsApp if not.
\<close>

theorem shouldUseSMS_follows_routing_algorithm:
  "(if shouldUseSMS cfg phone then SMS else AlternateChannel) = spec_chooseChannel cfg phone"
  by (simp add: shouldUseSMS_def spec_chooseChannel_def Let_def some_iff_Bex
      startsWith_iff_prefix normalizePhone_spec getSmsCountryCodes_spec)

text \<open>With the constants as loaded from the environment: a WhatsApp template id that is
  unset or empty sends every phone by SMS.\<close>

lemma load_config_without_whatsapp_template:
  assumes "env (js ''AUTHENTICA_WHATSAPP_TEMPLATE_ID'') = None \<or>
           env (js ''AUTHENTICA_WHATSAPP_TEMPLATE_ID'') = Some []"
  shows "shouldUseSMS (load_config env) phone"
  using assms by (auto simp: shouldUseSMS_def load_config_def env_or_def)

lemma example_codes: "getSmsCountryCodes example_config = [js ''+966'', js ''+971'']"
  by (simp add: getSmsCountryCodes_def example_config_def string_evals)

lemma example_routes:
  "shouldUseSMS example_config (js ''966-512-345678'')"
  "\<not> shouldUseSMS example_config (js ''+14155550123'')"
  by (simp_all add: shouldUseSMS_def normalizePhone_def getSmsCountryCodes_def example_config_def string_evals)

theorem shouldUseSMS_follows_routing_algorithm_witness:
  "spec_chooseChannel example_config (js ''966-512-345678'') = SMS \<and>
   spec_chooseChannel example_config (js ''+14155550123'') = AlternateChannel"
  using shouldUseSMS_follows_routing_algorithm [of example_config "js ''966-512-345678''"]
    shouldUseSMS_follows_routing_algorithm [of example_config "js ''+14155550123''"]
  by (simp add: example_routes)

lemma normalizePhone_idem: "normalizePhone (normalizePhone p) = normalizePhone p"
proof -
  have kept: "\<not> isWhiteSpace PLUS \<and> PLUS \<noteq> HYPHEN"
    by (simp add: isWhiteSpace_def PLUS_def HYPHEN_def)
  have idem: "remove_space_hyphen (remove_space_hyphen p) = remove_space_hyphen p"
    by (simp add: remove_space_hyphen_filter)
  show ?thesis
    by (simp add: normalizePhone_def Let_def startsWith_def kept idem)
qed

lemma shouldUseSMS_normalizePhone: "shouldUseSMS cfg (normalizePhone p) = shouldUseSMS cfg p"
  by (simp add: shouldUseSMS_def normalizePhone_idem)

lemma normalizePhone_example: "normalizePhone (js ''966-512-345678'') = js ''+966512345678''"
  by (simp add: normalizePhone_def string_evals)

lemma normalizePhone_fixed_example: "normalizePhone (js ''+966512345678'') = js ''+966512345678''"
  by (simp add: normalizePhone_def string_evals)

text \<open>
  Claim C7. Routing is invariant under the normalisation of the phone: a phone and its
  normalised form get the same channel under every configuration, and in particular
  \<open>966-512-345678\<close> is routed as \<open>+966512345678\<close> is.
\<close>

theorem routing_invariant_under_normalization:
  "shouldUseSMS cfg (normalizePhone p) = shouldUseSMS cfg p \<and>
   shouldUseSMS cfg (js ''966-512-345678'') = shouldUseSMS cfg (js ''+966512345678'')"
proof
  show "shouldUseSMS cfg (normalizePhone p) = shouldUseSMS cfg p"
    by (rule shouldUseSMS_normalizePhone)
  have "shouldUseSMS cfg (js ''966-512-345678'') =
        shouldUseSMS cfg (normalizePhone (js ''966-512-345678''))"
    by (simp only: shouldUseSMS_normalizePhone)
  also have "\<dots> = shouldUseSMS cfg (js ''+966512345678'')"
    by (simp only: normalizePhone_example)
  finally show "shouldUseSMS cfg (js ''966-512-345678'') = shouldUseSMS cfg (js ''+966512345678'')" .
qed

theorem routing_invariant_under_normalization_witness:
  "shouldUseSMS example_config (js ''+966512345678'') \<and>
   shouldUseSMS example_config (normalizePhone (js '' 966 512-345678''))"
  using routing_invariant_under_normalization [of example_config "js ''966-512-345678''"]
    routing_invariant_under_normalization [of example_config "js '' 966 512-345678''"]
  by (simp add: example_routes shouldUseSMS_def normalizePhone_def getSmsCountryCodes_def
      example_config_def string_evals)

text \<open>The result of the router rests on the phone, the allow-list string and the WhatsApp
  template id only.\<close>

lemma shouldUseSMS_reads_only_routing_configuration:
  assumes "AUTHENTICA_WHATSAPP_TEMPLATE_ID c1 = AUTHENTICA_WHATSAPP_TEMPLATE_ID c2"
    and "SMS_COUNTRY_CODES c1 = SMS_COUNTRY_CODES c2"
  shows "shouldUseSMS c1 p = shouldUseSMS c2 p"
  using assms by (simp add: shouldUseSMS_def getSmsCountryCodes_def)

text \<open>The state of the module can change: \<^verbatim>\<open>console.log\<close> changes it.\<close>

lemma console_log_changes_state: "snd (console_log line s) \<noteq> s"
proof
  assume "snd (console_log line s) = s"
  then have "console (snd (console_log line s)) = console s" by simp
  then show False by (simp add: console_log_def)
qed

lemma getSmsCountryCodes_call_eq:
  "getSmsCountryCodes_call s = (getSmsCountryCodes (bindings s), s)"
  by (simp add: getSmsCountryCodes_call_def read_binding_def getSmsCountryCodes_def)

lemma shouldUseSMS_call_eq:
  "shouldUseSMS_call phone s = (shouldUseSMS (bindings s) phone, s)"
  by (simp add: shouldUseSMS_call_def read_binding_def getSmsCountryCodes_call_eq
      shouldUseSMS_def normalizePhone_def Let_def)

lemma invocations_eq:
  "invocations phones s = (map (shouldUseSMS (bindings s)) phones, s)"
  by (induction phones) (simp_all add: shouldUseSMS_call_eq)

text \<open>
  Claim C8. The router is deterministic and has no side effect. On the state of the
  module (bindings, console, requests sent), an invocation of \<^verbatim>\<open>shouldUseSMS\<close> returns
  the channel that the phone and the bindings fix and leaves the state as it found it;
  so does every sequence of invocations; and after any invocations, an invocation
  returns the same channel and state as it does before them, in particular when the
  same phone is routed twice.
\<close>

theorem shouldUseSMS_call_deterministic_without_effect:
  "shouldUseSMS_call phone s = (shouldUseSMS (bindings s) phone, s) \<and>
   invocations phones s = (map (shouldUseSMS (bindings s)) phones, s) \<and>
   shouldUseSMS_call phone (snd (invocations phones s)) = shouldUseSMS_call phone s \<and>
   shouldUseSMS_call phone (snd (shouldUseSMS_call phone s)) = shouldUseSMS_call phone s"
proof (intro conjI)
  show one: "shouldUseSMS_call phone s = (shouldUseSMS (bindings s) phone, s)"
    by (rule shouldUseSMS_call_eq)
  show many: "invocations phones s = (map (shouldUseSMS (bindings s)) phones, s)"
    by (rule invocations_eq)
  have "snd (invocations phones s) = s"
    by (simp only: many snd_conv)
  then show "shouldUseSMS_call phone (snd (invocations phones s)) = shouldUseSMS_call phone s"
    by (simp only:)
  have "snd (shouldUseSMS_call phone s) = s"
    by (simp only: one snd_conv)
  then show "shouldUseSMS_call phone (snd (shouldUseSMS_call phone s)) = shouldUseSMS_call phone s"
    by (simp only:)
qed

theorem shouldUseSMS_call_deterministic_without_effect_witness:
  "shouldUseSMS_call (js ''+14155550123'') example_state = (False, example_state) \<and>
   invocations [js ''966-512-345678'', js ''+14155550123'', js ''966-512-345678''] example_state =
     ([True, False, True], example_state)"
  using shouldUseSMS_call_deterministic_without_effect
    [of "js ''+14155550123''" example_state
      "[js ''966-512-345678'', js ''+14155550123'', js ''966-512-345678'']"]
  by (simp add: example_routes example_state_def)

section \<open>Payload validation\<close>

lemmas handler_defs = handler_def handler_try_def process_event_def

text \<open>
  Claim C3. For a POST request whose event has been read, a phone that is missing or
  empty after the fallback from \<^verbatim>\<open>user.phone\<close> to \<^verbatim>\<open>user.new_phone\<close> gives the
  response 400 \<open>invalid_payload\<close>, \<open>Missing phone number\<close>; a phone that is present
  with an OTP that is missing or empty gives 400 \<open>invalid_payload\<close>, \<open>Missing OTP\<close>;
  in both cases no request is made to the provider. Missing or empty is what the code
  tests, falsiness; for a field that is a string or absent the two are the same.
\<close>

theorem missing_phone_or_otp_is_rejected:
  assumes "req_method req = js ''POST''"
    and "req_text req = Inr payload"
    and "read_event cfg rt req payload = Inr event"
  shows "(\<not> truthy (extract_phone event) \<longrightarrow>
            handler cfg rt req =
              (error_response 400 (js ''invalid_payload'') (js ''Missing phone number''), [])) \<and>
         (truthy (extract_phone event) \<and> \<not> truthy (extract_otp event) \<longrightarrow>
            handler cfg rt req =
              (error_response 400 (js ''invalid_payload'') (js ''Missing OTP''), []))"
  using assms by (simp add: handler_defs Let_def)

lemma example_parse:
  "example_JSON_parse example_payload = Inr example_event"
  "example_JSON_parse payload_without_phone = Inr event_without_phone"
  "example_JSON_parse payload_without_otp = Inr event_without_otp"
  "example_JSON_parse payload_empty_object = Inr (JObject [])"
  by (simp_all add: example_JSON_parse_def example_payload_def payload_without_phone_def
      payload_without_otp_def payload_empty_object_def provider_error_body_def js_def)

lemma example_read_event_unverified:
  "read_event example_config (example_runtime verification_failed provider)
     (example_request payload) payload = example_JSON_parse payload"
  by (simp add: read_event_def example_config_def example_runtime_def verification_failed_def js_def)

theorem missing_phone_or_otp_is_rejected_witness:
  "handler example_config (example_runtime verification_failed (Rejected (OtherError [])))
     (example_request payload_without_phone) =
     (error_response 400 (js ''invalid_payload'') (js ''Missing phone number''), []) \<and>
   handler example_config (example_runtime verification_failed (Rejected (OtherError [])))
     (example_request payload_without_otp) =
     (error_response 400 (js ''invalid_payload'') (js ''Missing OTP''), [])"
proof -
  let ?rt = "example_runtime verification_failed (Rejected (OtherError []))"
  have m: "req_method (example_request p) = js ''POST''" for p
    by (simp add: example_request_def)
  have t: "req_text (example_request p) = Inr p" for p
    by (simp add: example_request_def)
  have e1: "read_event example_config ?rt (example_request payload_without_phone)
              payload_without_phone = Inr event_without_phone"
    by (simp add: example_read_event_unverified example_parse)
  have e2: "read_event example_config ?rt (example_request payload_without_otp)
              payload_without_otp = Inr event_without_otp"
    by (simp add: example_read_event_unverified example_parse)
  have p1: "\<not> truthy (extract_phone event_without_phone)"
    by (simp add: extract_phone_def event_without_phone_def js_or_def js_def)
  have p2: "truthy (extract_phone event_without_otp) \<and> \<not> truthy (extract_otp event_without_otp)"
    by (simp add: extract_phone_def extract_otp_def event_without_otp_def js_or_def js_def)
  show ?thesis
    using missing_phone_or_otp_is_rejected [OF m t e1] missing_phone_or_otp_is_rejected [OF m t e2]
      p1 p2 by simp
qed

text \<open>
  Claim C10. The phone is validated before the OTP: for a POST request whose event has
  \<^verbatim>\<open>user.phone\<close>, \<^verbatim>\<open>user.new_phone\<close> and \<^verbatim>\<open>sms.otp\<close> all missing or empty, the
  response is the one for the missing phone (400, \<open>Missing phone number\<close>), and it is
  not the one for the missing OTP.
\<close>

theorem phone_validation_precedes_otp_validation:
  assumes "req_method req = js ''POST''"
    and "req_text req = Inr payload"
    and "read_event cfg rt req payload = Inr event"
    and "\<not> truthy (optional_get (optional_get event (js ''user'')) (js ''phone''))"
    and "\<not> truthy (optional_get (optional_get event (js ''user'')) (js ''new_phone''))"
    and "\<not> truthy (extract_otp event)"
  shows "handler cfg rt req =
           (error_response 400 (js ''invalid_payload'') (js ''Missing phone number''), []) \<and>
         fst (handler cfg rt req) \<noteq>
           error_response 400 (js ''invalid_payload'') (js ''Missing OTP'')"
proof -
  have "\<not> truthy (extract_phone event)"
    using assms(4,5) by (simp add: extract_phone_def js_or_def)
  then have h: "handler cfg rt req =
      (error_response 400 (js ''invalid_payload'') (js ''Missing phone number''), [])"
    using assms(1-3) by (simp add: handler_defs Let_def)
  have "js ''Missing phone number'' \<noteq> js ''Missing OTP''"
    by (simp add: js_def)
  then have "error_response 400 (js ''invalid_payload'') (js ''Missing phone number'') \<noteq>
             error_response 400 (js ''invalid_payload'') (js ''Missing OTP'')"
    by (simp add: error_response_def json_response_def)
  with h show ?thesis by simp
qed

theorem phone_validation_precedes_otp_validation_witness:
  "handler example_config (example_runtime verification_failed (Rejected (OtherError [])))
     (example_request payload_empty_object) =
     (error_response 400 (js ''invalid_payload'') (js ''Missing phone number''), [])"
proof -
  let ?rt = "example_runtime verification_failed (Rejected (OtherError []))"
  have m: "req_method (example_request payload_empty_object) = js ''POST''"
    by (simp add: example_request_def)
  have t: "req_text (example_request payload_empty_object) = Inr payload_empty_object"
    by (simp add: example_request_def)
  have e: "read_event example_config ?rt (example_request payload_empty_object)
             payload_empty_object = Inr (JObject [])"
    by (simp add: example_read_event_unverified example_parse)
  have a: "\<not> truthy (optional_get (optional_get (JObject []) (js ''user'')) (js ''phone''))"
    by simp
  have b: "\<not> truthy (optional_get (optional_get (JObject []) (js ''user'')) (js ''new_phone''))"
    by simp
  have c: "\<not> truthy (extract_otp (JObject []))"
    by (simp add: extract_otp_def)
  show ?thesis
    using phone_validation_precedes_otp_validation [OF m t e a b c] by simp
qed


text \<open>
  Claim C5. Without an API key (unset or empty) \<^verbatim>\<open>sendSMS\<close> returns
  \<open>{success: false, error: "SMS service not configured"}\<close> for every phone and OTP and
  makes no request; the handler, for an event with a phone and an OTP, then answers 500
  with the code \<open>sms_send_failure\<close> and that message, and no request has been made.
\<close>

theorem unconfigured_api_key_fails_without_network_call:
  assumes "AUTHENTICA_API_KEY cfg = None \<or> AUTHENTICA_API_KEY cfg = Some []"
  shows "sendSMS cfg rt phone otp =
           (Inr \<lparr> success = False, error = Some (js ''SMS service not configured''),
                  data = None \<rparr>, []) \<and>
         (req_method req = js ''POST'' \<and> req_text req = Inr payload \<and>
          read_event cfg rt req payload = Inr event \<and>
          extract_phone event = JString s \<and> s \<noteq> [] \<and> truthy (extract_otp event) \<longrightarrow>
            handler cfg rt req =
              (error_response 500 (js ''sms_send_failure'') (js ''SMS service not configured''), []))"
proof -
  have send: "sendSMS cfg rt p v =
           (Inr \<lparr> success = False, error = Some (js ''SMS service not configured''),
                  data = None \<rparr>, [])" for p v
    using assms by (auto simp: sendSMS_def)
  have ne: "js ''SMS service not configured'' \<noteq> []"
    by (simp add: js_def)
  show ?thesis
    by (simp add: send handler_defs Let_def env_or_def ne)
qed

theorem unconfigured_api_key_fails_without_network_call_witness:
  "sendSMS (example_config\<lparr>AUTHENTICA_API_KEY := None\<rparr>)
      (example_runtime verification_failed (Responded 200 (Inr [])))
      (js ''+966512345678'') (JString (js ''123456'')) =
     (Inr \<lparr> success = False, error = Some (js ''SMS service not configured''), data = None \<rparr>, []) \<and>
   handler (example_config\<lparr>AUTHENTICA_API_KEY := None\<rparr>)
      (example_runtime verification_failed (Responded 200 (Inr [])))
      (example_request example_payload) =
     (error_response 500 (js ''sms_send_failure'') (js ''SMS service not configured''), [])"
proof -
  let ?cfg = "example_config\<lparr>AUTHENTICA_API_KEY := None\<rparr>"
  let ?rt = "example_runtime verification_failed (Responded 200 (Inr []))"
  have k: "AUTHENTICA_API_KEY ?cfg = None \<or> AUTHENTICA_API_KEY ?cfg = Some []"
    by simp
  have e: "read_event ?cfg ?rt (example_request example_payload) example_payload = Inr example_event"
    by (simp add: read_event_def example_config_def example_runtime_def verification_failed_def
        example_parse js_def)
  have p: "extract_phone example_event = JString (js ''966512345678'')"
    by (simp add: extract_phone_def example_event_def js_or_def js_def)
  have o: "truthy (extract_otp example_event)"
    by (simp add: extract_otp_def example_event_def js_def)
  show ?thesis
    using unconfigured_api_key_fails_without_network_call
      [OF k, of ?rt "js ''+966512345678''" "JString (js ''123456'')"
        "example_request example_payload" example_payload example_event "js ''966512345678''"]
      e p o
    by (simp add: example_request_def js_def)
qed


section \<open>Delivery\<close>

lemma parsed_or_raw_cases:
  "JSON_parse rt responseText = Inr v \<Longrightarrow> parsed_or_raw rt responseText = v"
  "JSON_parse rt responseText = Inl e \<Longrightarrow> parsed_or_raw rt responseText = JString responseText"
  by (simp_all add: parsed_or_raw_def)

text \<open>
  Claim C2. With an API key configured, \<^verbatim>\<open>sendSMS\<close> never throws: it returns a result,
  after exactly one request to the provider. When the provider's response has been read,
  \<open>success\<close> is true exactly when the status is from 200 to 299; then the result is
  \<open>{success: true, data}\<close>, and for any other status it is \<open>{success: false, error:
  "Authentica API error: <status>", data}\<close>. In both cases the data is the value that
  \<^verbatim>\<open>JSON.parse\<close> makes of the body when the body parses, and the raw text of the body
  when it does not. When \<^verbatim>\<open>fetch\<close> or the reading of the body throws, the result is
  \<open>{success: false, error: "Failed to send SMS"}\<close>, the same for every error.
\<close>

theorem sendSMS_result_by_provider_outcome:
  assumes "AUTHENTICA_API_KEY cfg = Some key" and "key \<noteq> []"
  shows "\<exists>result.
           sendSMS cfg rt phone otp = (Inr result, [send_otp_request cfg rt key phone otp]) \<and>
           (case fetch rt (send_otp_request cfg rt key phone otp) of
              Responded st (Inr responseText) \<Rightarrow>
                (success result \<longleftrightarrow> 200 \<le> st \<and> st \<le> 299) \<and>
                (\<forall>v. JSON_parse rt responseText = Inr v \<longrightarrow>
                   result =
                     (if 200 \<le> st \<and> st \<le> 299
                      then \<lparr> success = True, error = None, data = Some v \<rparr>
                      else \<lparr> success = False,
                             error = Some (js ''Authentica API error: '' @ number_to_string st),
                             data = Some v \<rparr>)) \<and>
                (\<forall>e. JSON_parse rt responseText = Inl e \<longrightarrow>
                   result =
                     (if 200 \<le> st \<and> st \<le> 299
                      then \<lparr> success = True, error = None, data = Some (JString responseText) \<rparr>
                      else \<lparr> success = False,
                             error = Some (js ''Authentica API error: '' @ number_to_string st),
                             data = Some (JString responseText) \<rparr>))
            | Responded st (Inl e) \<Rightarrow>
                result = \<lparr> success = False, error = Some (js ''Failed to send SMS''), data = None \<rparr>
            | Rejected e \<Rightarrow>
                result = \<lparr> success = False, error = Some (js ''Failed to send SMS''), data = None \<rparr>)"
proof (cases "fetch rt (send_otp_request cfg rt key phone otp)")
  case (Rejected e)
  then show ?thesis
    using assms by (simp add: sendSMS_def sendSMS_try_def Let_def)
next
  case (Responded st body_text)
  show ?thesis
  proof (cases body_text)
    case (Inl e)
    with Responded show ?thesis
      using assms by (simp add: sendSMS_def sendSMS_try_def Let_def)
  next
    case (Inr responseText)
    with Responded show ?thesis
      using assms
      by (auto simp: sendSMS_def sendSMS_try_def Let_def parsed_or_raw_def response_ok_def)
  qed
qed

lemma number_to_string_422: "number_to_string 422 = js ''422''"
  by (simp add: number_to_string.simps js_def)

lemma example_parse_provider_error:
  "example_JSON_parse provider_error_body =
     Inr (JObject [(js ''message'', JString (js ''invalid template''))])"
  "example_JSON_parse (js ''ok'') = Inl (SyntaxError (js ''Unexpected token in JSON''))"
  by (simp_all add: example_JSON_parse_def example_payload_def payload_without_phone_def
      payload_without_otp_def payload_empty_object_def provider_error_body_def js_def)

theorem sendSMS_result_by_provider_outcome_witness:
  "sendSMS example_config
     (example_runtime verification_failed (Responded 422 (Inr provider_error_body)))
     (js ''+966512345678'') (JString (js ''123456'')) =
     (Inr \<lparr> success = False, error = Some (js ''Authentica API error: 422''),
            data = Some (JObject [(js ''message'', JString (js ''invalid template''))]) \<rparr>,
      [send_otp_request example_config
         (example_runtime verification_failed (Responded 422 (Inr provider_error_body)))
         (js ''secret-api-key'') (js ''+966512345678'') (JString (js ''123456''))]) \<and>
   sendSMS example_config
     (example_runtime verification_failed (Responded 200 (Inr (js ''ok''))))
     (js ''+966512345678'') (JString (js ''123456'')) =
     (Inr \<lparr> success = True, error = None, data = Some (JString (js ''ok'')) \<rparr>,
      [send_otp_request example_config
         (example_runtime verification_failed (Responded 200 (Inr (js ''ok''))))
         (js ''secret-api-key'') (js ''+966512345678'') (JString (js ''123456''))])"
proof -
  have k: "AUTHENTICA_API_KEY example_config = Some (js ''secret-api-key'')"
    by (simp add: example_config_def)
  have n: "js ''secret-api-key'' \<noteq> []"
    by (simp add: js_def)
  have f: "fetch (example_runtime v provider) r = provider" for v provider r
    by (simp add: example_runtime_def)
  have p: "JSON_parse (example_runtime v provider) t = example_JSON_parse t" for v provider t
    by (simp add: example_runtime_def)
  have s: "js ''Authentica API error: '' @ number_to_string 422 = js ''Authentica API error: 422''"
    by (simp add: number_to_string_422) (simp add: js_def)
  show ?thesis
    using sendSMS_result_by_provider_outcome
      [OF k n, of "example_runtime verification_failed (Responded 422 (Inr provider_error_body))"
        "js ''+966512345678''" "JString (js ''123456'')"]
      sendSMS_result_by_provider_outcome
      [OF k n, of "example_runtime verification_failed (Responded 200 (Inr (js ''ok'')))"
        "js ''+966512345678''" "JString (js ''123456'')"]
    by (auto simp: f p s example_parse_provider_error)
qed

section \<open>Signature verification\<close>

lemma process_event_ignores_hook_secret:
  "process_event (cfg\<lparr>HOOK_SECRET := h\<rparr>) rt event = process_event cfg rt event"
proof -
  have r: "shouldUseSMS (cfg\<lparr>HOOK_SECRET := h\<rparr>) p = shouldUseSMS cfg p" for p
    by (simp add: shouldUseSMS_def getSmsCountryCodes_def)
  have q: "send_otp_request (cfg\<lparr>HOOK_SECRET := h\<rparr>) rt k p v = send_otp_request cfg rt k p v"
    for k p v
    by (simp add: send_otp_request_def Let_def r)
  have t: "sendSMS_try (cfg\<lparr>HOOK_SECRET := h\<rparr>) rt k p v = sendSMS_try cfg rt k p v" for k p v
    by (simp add: sendSMS_try_def q)
  have s: "sendSMS (cfg\<lparr>HOOK_SECRET := h\<rparr>) rt p v = sendSMS cfg rt p v" for p v
    by (simp add: sendSMS_def t split: option.splits)
  show ?thesis
    by (simp add: process_event_def Let_def s split: jsval.splits)
qed

text \<open>
  Claim C4. With a hook secret configured, verification never ends a POST request by
  itself. For a body that is valid JSON the event is read whatever the verifier does:
  when it throws, the body is parsed anyway, and when it succeeds it returns the parsed
  body, which is how \<^verbatim>\<open>verify\<close> of Standard Webhooks ends and what the last
  assumption says. The handling after that is \<open>process_event\<close> on that event in both
  cases, and the response and the requests to the provider are those of the same
  request handled with no secret configured.
\<close>

theorem verification_failure_does_not_stop_the_request:
  assumes "req_method req = js ''POST''"
    and "req_text req = Inr payload"
    and "HOOK_SECRET cfg = Some hook_secret"
    and "hook_secret \<noteq> []"
    and "JSON_parse rt payload = Inr event"
    and "\<forall>verified.
           Webhook_verify rt (verifier_secret hook_secret) payload (req_headers req) = Inr verified
             \<longrightarrow> verified = event"
  shows "read_event cfg rt req payload = Inr event \<and>
         handler_try cfg rt req = process_event cfg rt event \<and>
         handler cfg rt req = handler (cfg\<lparr>HOOK_SECRET := None\<rparr>) rt req"
proof -
  have e: "read_event cfg rt req payload = Inr event"
    using assms(3-6) by (auto simp: read_event_def split: sum.splits)
  have u: "read_event (cfg\<lparr>HOOK_SECRET := None\<rparr>) rt req payload = Inr event"
    using assms(5) by (simp add: read_event_def)
  have t: "handler_try cfg rt req = process_event cfg rt event"
    using assms(2) e by (simp add: handler_try_def)
  have t': "handler_try (cfg\<lparr>HOOK_SECRET := None\<rparr>) rt req = process_event cfg rt event"
    using assms(2) u by (simp add: handler_try_def process_event_ignores_hook_secret)
  show ?thesis
    using e t t' by (simp add: handler_def)
qed

theorem verification_failure_does_not_stop_the_request_witness:
  "handler example_config (example_runtime verification_failed (Responded 200 (Inr (js ''ok''))))
     (example_request example_payload) =
     (json_response 200 (JObject [(js ''success'', JBool True)]),
      [send_otp_request example_config
         (example_runtime verification_failed (Responded 200 (Inr (js ''ok''))))
         (js ''secret-api-key'') (js ''+966512345678'') (JString (js ''123456''))]) \<and>
   handler example_config (example_runtime (Inr example_event) (Responded 200 (Inr (js ''ok''))))
     (example_request example_payload) =
     (json_response 200 (JObject [(js ''success'', JBool True)]),
      [send_otp_request example_config
         (example_runtime (Inr example_event) (Responded 200 (Inr (js ''ok''))))
         (js ''secret-api-key'') (js ''+966512345678'') (JString (js ''123456''))])"
proof -
  let ?req = "example_request example_payload"
  have m: "req_method ?req = js ''POST''"
    by (simp add: example_request_def)
  have t: "req_text ?req = Inr example_payload"
    by (simp add: example_request_def)
  have h: "HOOK_SECRET example_config = Some (js ''v1,whsec_c2VjcmV0'')"
    by (simp add: example_config_def)
  have n: "js ''v1,whsec_c2VjcmV0'' \<noteq> []"
    by (simp add: js_def)
  have p: "JSON_parse (example_runtime v f) example_payload = Inr example_event" for v f
    by (simp add: example_runtime_def example_parse)
  have v1: "\<forall>verified.
      Webhook_verify (example_runtime verification_failed f)
        (verifier_secret (js ''v1,whsec_c2VjcmV0'')) example_payload (req_headers ?req) = Inr verified
      \<longrightarrow> verified = example_event" for f
    by (simp add: example_runtime_def verification_failed_def)
  have v2: "\<forall>verified.
      Webhook_verify (example_runtime (Inr example_event) f)
        (verifier_secret (js ''v1,whsec_c2VjcmV0'')) example_payload (req_headers ?req) = Inr verified
      \<longrightarrow> verified = example_event" for f
    by (simp add: example_runtime_def)
  have ph: "extract_phone example_event = JString (js ''966512345678'')"
    by (simp add: extract_phone_def example_event_def js_or_def js_def)
  have ot: "extract_otp example_event = JString (js ''123456'')"
    by (simp add: extract_otp_def example_event_def js_def)
  have fp: "(if \<not> startsWith (js ''966512345678'') [PLUS] then PLUS # js ''966512345678''
             else js ''966512345678'') = js ''+966512345678''"
    by (simp add: string_evals)
  have k: "AUTHENTICA_API_KEY example_config = Some (js ''secret-api-key'')"
    by (simp add: example_config_def)
  have f: "fetch (example_runtime v provider) r = provider" for v provider r
    by (simp add: example_runtime_def)
  have kn: "js ''secret-api-key'' \<noteq> []" "js ''123456'' \<noteq> []" "js ''966512345678'' \<noteq> []"
    by (simp_all add: js_def)
  have s: "sendSMS example_config (example_runtime v (Responded 200 (Inr (js ''ok''))))
             (js ''+966512345678'') (JString (js ''123456'')) =
           (Inr \<lparr> success = True, error = None,
                   data = Some (parsed_or_raw (example_runtime v (Responded 200 (Inr (js ''ok'')))) (js ''ok'')) \<rparr>,
            [send_otp_request example_config (example_runtime v (Responded 200 (Inr (js ''ok''))))
               (js ''secret-api-key'') (js ''+966512345678'') (JString (js ''123456''))])" for v
    by (simp add: sendSMS_def sendSMS_try_def k kn Let_def response_ok_def f)
  have pe: "process_event example_config (example_runtime v (Responded 200 (Inr (js ''ok''))))
              example_event =
            (Inr (json_response 200 (JObject [(js ''success'', JBool True)])),
             [send_otp_request example_config (example_runtime v (Responded 200 (Inr (js ''ok''))))
               (js ''secret-api-key'') (js ''+966512345678'') (JString (js ''123456''))])" for v
    by (simp add: process_event_def ph ot kn fp s Let_def)
  show ?thesis
    using verification_failure_does_not_stop_the_request [OF m t h n p v1]
      verification_failure_does_not_stop_the_request [OF m t h n p v2]
    by (simp add: handler_def m pe)
qed

lemma verifier_secret_strips_leading_prefix:
  "verifier_secret (js ''v1,whsec_'' @ rest) = rest"
  by (simp add: verifier_secret_def replace_first_empty_prefix)

lemma verifier_secret_unchanged_without_occurrence:
  "\<forall>a b. hook_secret \<noteq> a @ js ''v1,whsec_'' @ b \<Longrightarrow> verifier_secret hook_secret = hook_secret"
  by (simp add: verifier_secret_def replace_first_empty_absent)

text \<open>
  Claim C6. The claim has the verifier get the configured secret without the prefix
  \<open>v1,whsec_\<close> when the secret starts with it, and the secret unchanged otherwise. The
  first half holds (\<open>verifier_secret_strips_leading_prefix\<close>), and a secret in which
  \<open>v1,whsec_\<close> does not occur is unchanged. But line 216 uses \<^verbatim>\<open>replace\<close>, which
  removes the leftmost occurrence wherever it is: the secret \<open>abcv1,whsec_def\<close> does not
  start with the prefix, and the verifier gets \<open>abcdef\<close>, not the secret unchanged.
\<close>

theorem verifier_secret_removes_inner_occurrence:
  "verifier_secret (js ''abcv1,whsec_def'') = js ''abcdef'' \<and>
   \<not> prefix (js ''v1,whsec_'') (js ''abcv1,whsec_def'') \<and>
   verifier_secret (js ''abcv1,whsec_def'') \<noteq> js ''abcv1,whsec_def''"
  by (simp add: verifier_secret_def js_def startsWith_def)

text \<open>
  Claim C9. A POST request whose body is not valid JSON, with no secret configured or
  after the verifier has thrown, gets the response 500 with the code
  \<open>unexpected_failure\<close>, not 400 \<open>invalid_payload\<close>; the message is the message of the
  parse error (or \<open>Internal server error\<close> if that message were empty), the body is a
  JSON object and the content type is \<open>application/json\<close>. No request is made to the
  provider.
\<close>

theorem invalid_json_body_is_unexpected_failure:
  assumes "req_method req = js ''POST''"
    and "req_text req = Inr payload"
    and "JSON_parse rt payload = Inl err"
    and "HOOK_SECRET cfg = None \<or> HOOK_SECRET cfg = Some [] \<or>
         (\<exists>hook_secret verifyError. HOOK_SECRET cfg = Some hook_secret \<and>
            Webhook_verify rt (verifier_secret hook_secret) payload (req_headers req) =
              Inl verifyError)"
  shows "handler cfg rt req =
           (error_response 500 (js ''unexpected_failure'')
              (if error_message err = [] then js ''Internal server error'' else error_message err),
            []) \<and>
         status (fst (handler cfg rt req)) = 500 \<and>
         resp_headers (fst (handler cfg rt req)) = [(js ''Content-Type'', js ''application/json'')] \<and>
         optional_get (json_body (fst (handler cfg rt req))) (js ''code'') =
           JString (js ''unexpected_failure'')"
proof -
  have e: "read_event cfg rt req payload = Inl err"
    using assms(3,4) by (auto simp: read_event_def)
  have h: "handler cfg rt req =
           (error_response 500 (js ''unexpected_failure'')
              (if error_message err = [] then js ''Internal server error'' else error_message err),
            [])"
    using assms(1,2) e by (simp add: handler_def handler_try_def)
  have c: "js ''code'' \<noteq> js ''message''"
    by (simp add: js_def)
  show ?thesis
    unfolding h by (simp add: error_response_def json_response_def c)
qed

theorem invalid_json_body_is_unexpected_failure_witness:
  "handler example_config (example_runtime verification_failed (Rejected (OtherError [])))
     (example_request (js ''not json'')) =
     (error_response 500 (js ''unexpected_failure'') (js ''Unexpected token in JSON''), [])"
proof -
  let ?rt = "example_runtime verification_failed (Rejected (OtherError []))"
  let ?req = "example_request (js ''not json'')"
  have m: "req_method ?req = js ''POST''"
    by (simp add: example_request_def)
  have t: "req_text ?req = Inr (js ''not json'')"
    by (simp add: example_request_def)
  have p: "JSON_parse ?rt (js ''not json'') = Inl (SyntaxError (js ''Unexpected token in JSON''))"
    by (simp add: example_runtime_def example_JSON_parse_def
        example_payload_def payload_without_phone_def payload_without_otp_def
        payload_empty_object_def provider_error_body_def js_def)
  have v: "HOOK_SECRET example_config = None \<or> HOOK_SECRET example_config = Some [] \<or>
         (\<exists>hook_secret verifyError. HOOK_SECRET example_config = Some hook_secret \<and>
            Webhook_verify ?rt (verifier_secret hook_secret) (js ''not json'') (req_headers ?req) =
              Inl verifyError)"
    by (simp add: example_config_def example_runtime_def verification_failed_def)
  have n: "js ''Unexpected token in JSON'' \<noteq> []"
    by (simp add: js_def)
  show ?thesis
    using invalid_json_body_is_unexpected_failure [OF m t p v] n by simp
qed

end
